theory Spec2Isabelle
  imports Main "HOL-Library.Word" "HOL-Library.Signed_Division"
begin

unbundle bit_operations_syntax

section \<open>LPC11xx clock tree: \<^verbatim>\<open>os/hal/platforms/LPC11xx/hal_lld.h\<close>\<close>

text \<open>
  The header derives the clock frequencies from the pre-compile time settings with
  preprocessor arithmetic and refuses a bad setting with \<^verbatim>\<open>#error\<close>. A macro is a
  function of the settings. The preprocessor evaluates an \<^verbatim>\<open>#if\<close> in the 64-bit signed
  type \<^verbatim>\<open>intmax_t\<close>: a product wraps around, the division truncates towards zero
  (\<open>sdiv\<close>), a division by zero is an error of its own, and an identifier that no
  \<^verbatim>\<open>#define\<close> has introduced is read as 0.
\<close>

subsection \<open>Preprocessor arithmetic\<close>

definition intmax_t :: "int \<Rightarrow> int" where
  "intmax_t k = (k + 2 ^ 63) mod 2 ^ 64 - 2 ^ 63"

definition cpp_mul :: "int \<Rightarrow> int \<Rightarrow> int" where
  "cpp_mul a b = intmax_t (a * b)"

definition cpp_div :: "int \<Rightarrow> int \<Rightarrow> int option" where
  "cpp_div a b = (if b = 0 then None else Some (intmax_t (a sdiv b)))"

definition cpp_identifier :: "int option \<Rightarrow> int" where
  "cpp_identifier m = (case m of None \<Rightarrow> 0 | Some v \<Rightarrow> v)"

subsection \<open>Driver constants\<close>

definition IRCOSCCLK :: int where
  "IRCOSCCLK = 12000000"

definition WDGOSCCLK :: int where
  "WDGOSCCLK = 12000000"

definition SYSPLLCLKSEL_IRCOCS :: int where
  "SYSPLLCLKSEL_IRCOCS = 0"

definition SYSPLLCLKSEL_SYSOSC :: int where
  "SYSPLLCLKSEL_SYSOSC = 1"

definition SYSMAINCLKSEL_IRCOCS :: int where
  "SYSMAINCLKSEL_IRCOCS = 0"

definition SYSMAINCLKSEL_PLLIN :: int where
  "SYSMAINCLKSEL_PLLIN = 1"

definition SYSMAINCLKSEL_WDGOSC :: int where
  "SYSMAINCLKSEL_WDGOSC = 2"

definition SYSMAINCLKSEL_PLLOUT :: int where
  "SYSMAINCLKSEL_PLLOUT = 3"

subsection \<open>Pre-compile time settings\<close>

text \<open>
  \<open>SYSOSCCLK\<close> is the frequency of the system oscillator. The board file defines it,
  not this header, so it is a setting like the five the header declares.
\<close>

record lpc11xx_settings =
  SYSOSCCLK :: int
  LPC11xx_PLLCLK_SOURCE :: int
  LPC11xx_SYSPLL_MUL :: int
  LPC11xx_SYSPLL_DIV :: int
  LPC11xx_MAINCLK_SOURCE :: int
  LPC11xx_SYSCLK_DIV :: int

text \<open>The defaults of the header, on a board with a 12 MHz crystal.\<close>

definition lpc11xx_defaults :: lpc11xx_settings where
  "lpc11xx_defaults =
     \<lparr>SYSOSCCLK = 12000000,
      LPC11xx_PLLCLK_SOURCE = SYSPLLCLKSEL_SYSOSC,
      LPC11xx_SYSPLL_MUL = 16,
      LPC11xx_SYSPLL_DIV = 4,
      LPC11xx_MAINCLK_SOURCE = SYSMAINCLKSEL_PLLOUT,
      LPC11xx_SYSCLK_DIV = 1\<rparr>"

text \<open>The defaults with a main clock source that is none of the four selections.\<close>

definition lpc11xx_main_source_4 :: lpc11xx_settings where
  "lpc11xx_main_source_4 = lpc11xx_defaults\<lparr>LPC11xx_MAINCLK_SOURCE := 4\<rparr>"

text \<open>
  The defaults with an oscillator of \<open>2 ^ 60 + 12000000\<close> Hz, whose product with the
  multiplier 16 does not fit in 64 bits.
\<close>

definition lpc11xx_huge_oscillator :: lpc11xx_settings where
  "lpc11xx_huge_oscillator = lpc11xx_defaults\<lparr>SYSOSCCLK := 1152921504618846976\<rparr>"

subsection \<open>Derived constants\<close>

text \<open>
  \<^verbatim>\<open>LPC11xx_SYSPLLCLKIN\<close> is defined for the two PLL clock sources and left undefined
  (\<open>None\<close>) for any other.
\<close>

definition LPC11xx_SYSPLLCLKIN :: "lpc11xx_settings \<Rightarrow> int option" where
  "LPC11xx_SYSPLLCLKIN s =
     (if LPC11xx_PLLCLK_SOURCE s = SYSPLLCLKSEL_SYSOSC then Some (SYSOSCCLK s)
      else if LPC11xx_PLLCLK_SOURCE s = SYSPLLCLKSEL_IRCOCS then Some IRCOSCCLK
      else None)"

definition LPC11xx_SYSPLLCCO :: "lpc11xx_settings \<Rightarrow> int" where
  "LPC11xx_SYSPLLCCO s =
     cpp_mul (cpp_identifier (LPC11xx_SYSPLLCLKIN s)) (LPC11xx_SYSPLL_MUL s)"

text \<open>A quotient is \<open>None\<close> when its evaluation divides by zero.\<close>

definition LPC11xx_SYSPLLCLKOUT :: "lpc11xx_settings \<Rightarrow> int option" where
  "LPC11xx_SYSPLLCLKOUT s = cpp_div (LPC11xx_SYSPLLCCO s) (LPC11xx_SYSPLL_DIV s)"

text \<open>
  \<^verbatim>\<open>LPC11xx_MAINCLK\<close> is defined for the four main clock sources and left undefined for
  any other; the \<^verbatim>\<open>#if\<close> that evaluates it then reads it as 0.
\<close>

definition LPC11xx_MAINCLK_defined :: "lpc11xx_settings \<Rightarrow> bool" where
  "LPC11xx_MAINCLK_defined s =
     (LPC11xx_MAINCLK_SOURCE s = SYSMAINCLKSEL_IRCOCS \<or>
      LPC11xx_MAINCLK_SOURCE s = SYSMAINCLKSEL_PLLIN \<or>
      LPC11xx_MAINCLK_SOURCE s = SYSMAINCLKSEL_WDGOSC \<or>
      LPC11xx_MAINCLK_SOURCE s = SYSMAINCLKSEL_PLLOUT)"

definition LPC11xx_MAINCLK :: "lpc11xx_settings \<Rightarrow> int option" where
  "LPC11xx_MAINCLK s =
     (if LPC11xx_MAINCLK_SOURCE s = SYSMAINCLKSEL_IRCOCS then Some IRCOSCCLK
      else if LPC11xx_MAINCLK_SOURCE s = SYSMAINCLKSEL_PLLIN
      then Some (cpp_identifier (LPC11xx_SYSPLLCLKIN s))
      else if LPC11xx_MAINCLK_SOURCE s = SYSMAINCLKSEL_WDGOSC then Some WDGOSCCLK
      else if LPC11xx_MAINCLK_SOURCE s = SYSMAINCLKSEL_PLLOUT then LPC11xx_SYSPLLCLKOUT s
      else Some 0)"

definition LPC11xx_SYSCLK :: "lpc11xx_settings \<Rightarrow> int option" where
  "LPC11xx_SYSCLK s =
     (case LPC11xx_MAINCLK s of
        None \<Rightarrow> None
      | Some mainclk \<Rightarrow> cpp_div mainclk (LPC11xx_SYSCLK_DIV s))"

subsection \<open>Error checks\<close>

text \<open>
  One constructor for each \<^verbatim>\<open>#error\<close> of the header, and one for the division by
  zero that the preprocessor reports when the \<^verbatim>\<open>#if\<close> on \<^verbatim>\<open>LPC11xx_SYSCLK\<close> divides
  by zero.
\<close>

datatype hal_lld_error =
    invalid_PLLCLK_SOURCE
  | SYSPLL_MUL_out_of_range
  | invalid_SYSPLL_DIV
  | CCO_out_of_range
  | invalid_MAINCLK_SOURCE
  | division_by_zero
  | AHB_clock_out_of_range

text \<open>
  The errors that the header reports, each check on its own and in the order of the
  header. The build fails when there is one.
\<close>

definition hal_lld_h :: "lpc11xx_settings \<Rightarrow> hal_lld_error list" where
  "hal_lld_h s =
     (if LPC11xx_SYSPLLCLKIN s = None then [invalid_PLLCLK_SOURCE] else []) @
     (if LPC11xx_SYSPLL_MUL s < 1 \<or> LPC11xx_SYSPLL_MUL s > 32
      then [SYSPLL_MUL_out_of_range] else []) @
     (if LPC11xx_SYSPLL_DIV s \<noteq> 2 \<and> LPC11xx_SYSPLL_DIV s \<noteq> 4 \<and>
         LPC11xx_SYSPLL_DIV s \<noteq> 8 \<and> LPC11xx_SYSPLL_DIV s \<noteq> 16
      then [invalid_SYSPLL_DIV] else []) @
     (if LPC11xx_SYSPLLCCO s < 156000000 \<or> LPC11xx_SYSPLLCCO s > 320000000
      then [CCO_out_of_range] else []) @
     (if LPC11xx_MAINCLK_defined s then [] else [invalid_MAINCLK_SOURCE]) @
     (case LPC11xx_SYSCLK s of
        None \<Rightarrow> [division_by_zero]
      | Some sysclk \<Rightarrow> if sysclk > 50000000 then [AHB_clock_out_of_range] else [])"

definition accepted :: "lpc11xx_settings \<Rightarrow> bool" where
  "accepted s = (hal_lld_h s = [])"

subsection \<open>The conditions of the specification\<close>

text \<open>
  The frequencies that the specification names, in exact integer arithmetic: the PLL
  input clock, the CCO frequency (PLL input clock times multiplier), the main clock and
  the AHB clock (main clock divided by the AHB divider). A clock whose source is none of
  the selections has the frequency 0.
\<close>

definition pll_input_clock :: "lpc11xx_settings \<Rightarrow> int" where
  "pll_input_clock s =
     (if LPC11xx_PLLCLK_SOURCE s = SYSPLLCLKSEL_SYSOSC then SYSOSCCLK s
      else if LPC11xx_PLLCLK_SOURCE s = SYSPLLCLKSEL_IRCOCS then IRCOSCCLK
      else 0)"

definition cco_frequency :: "lpc11xx_settings \<Rightarrow> int" where
  "cco_frequency s = pll_input_clock s * LPC11xx_SYSPLL_MUL s"

definition main_clock :: "lpc11xx_settings \<Rightarrow> int" where
  "main_clock s =
     (if LPC11xx_MAINCLK_SOURCE s = SYSMAINCLKSEL_IRCOCS then IRCOSCCLK
      else if LPC11xx_MAINCLK_SOURCE s = SYSMAINCLKSEL_PLLIN then pll_input_clock s
      else if LPC11xx_MAINCLK_SOURCE s = SYSMAINCLKSEL_WDGOSC then WDGOSCCLK
      else if LPC11xx_MAINCLK_SOURCE s = SYSMAINCLKSEL_PLLOUT
      then cco_frequency s sdiv LPC11xx_SYSPLL_DIV s
      else 0)"

definition ahb_clock :: "lpc11xx_settings \<Rightarrow> int" where
  "ahb_clock s = main_clock s sdiv LPC11xx_SYSCLK_DIV s"

text \<open>The four conditions, as the specification words them.\<close>

definition clock_conditions :: "lpc11xx_settings \<Rightarrow> bool" where
  "clock_conditions s =
     (1 \<le> LPC11xx_SYSPLL_MUL s \<and> LPC11xx_SYSPLL_MUL s \<le> 32 \<and>
      LPC11xx_SYSPLL_DIV s \<in> {2, 4, 8, 16} \<and>
      156000000 \<le> cco_frequency s \<and> cco_frequency s \<le> 320000000 \<and>
      ahb_clock s \<le> 50000000)"

section \<open>STM32 I2C driver: \<^verbatim>\<open>os/hal/platforms/STM32/i2c_lld.h\<close>\<close>

subsection \<open>Driver data structures and types\<close>

text \<open>
  The target is a 32-bit Cortex-M: \<^verbatim>\<open>size_t\<close> and every pointer are 32-bit words, and
  the null pointer is 0.
\<close>

type_synonym size_t = "32 word"

type_synonym pointer = "32 word"

definition NULL :: pointer where
  "NULL = 0"

datatype I2C_opMode_t = opmodeI2C | opmodeSMBusDevice | opmodeSMBusHost

datatype I2C_DutyCycle_t = stdDutyCycle | fastDutyCycle_2 | fastDutyCycle_16_9

record I2CConfig =
  opMode :: I2C_opMode_t
  ClockSpeed :: "32 word"
  FastModeDutyCycle :: I2C_DutyCycle_t
  OwnAddress7 :: "8 word"
  OwnAddress10 :: "16 word"

record I2CSlaveConfig =
  id_callback :: pointer
  id_err_callback :: pointer
  rxbuf :: pointer
  rxdepth :: size_t
  rxbytes :: size_t
  rxbufhead :: size_t
  txbuf :: pointer
  txdepth :: size_t
  txbytes :: size_t
  txbufhead :: size_t
  address :: "16 word"
  rw_bit :: "8 word"
  restart :: bool

text \<open>
  A transfer descriptor for the slave at the 7-bit address 0x50, held shifted left by one:
  one byte to send, then a restart, and no callbacks.
\<close>

definition slave_0x50 :: I2CSlaveConfig where
  "slave_0x50 =
     \<lparr>id_callback = NULL, id_err_callback = NULL,
      rxbuf = NULL, rxdepth = 0, rxbytes = 0, rxbufhead = 0,
      txbuf = 0x20000000, txdepth = 1, txbytes = 1, txbufhead = 0,
      address = 0x00A0, rw_bit = 0, restart = True\<rparr>"

subsection \<open>The driver structure\<close>

text \<open>
  Modelled from the spec: the type \<^verbatim>\<open>i2cstate_t\<close> of the field \<^verbatim>\<open>id_state\<close>, which
  the header uses and does not declare. Its values are the states of the transfer state
  machine.
\<close>

datatype i2cstate_t =
  Uninitialized | Stopped | Ready | ActiveTransmit | ActiveReceive | Locked

text \<open>
  The structure \<^verbatim>\<open>I2CDriver\<close> of the header, without the optional mutex. A pointer to a
  configuration or to a transfer descriptor is the structure it points to, and \<open>None\<close>
  is the null pointer: the driver borrows the descriptor for as long as it is bound.
\<close>

record I2CDriver =
  id_state :: i2cstate_t
  id_config :: "I2CConfig option"
  id_slave_config :: "I2CSlaveConfig option"
  id_i2c :: pointer

text \<open>A driver object in zeroed static storage, before \<^verbatim>\<open>i2c_lld_init\<close> has run.\<close>

definition I2CDriver_static :: I2CDriver where
  "I2CDriver_static =
     \<lparr>id_state = Uninitialized, id_config = None, id_slave_config = None, id_i2c = NULL\<rparr>"

subsection \<open>The driver operations\<close>

text \<open>
  The header declares the operations, each of them \<^verbatim>\<open>void\<close>, and the sources do not
  hold their bodies. What follows is modelled from the specification: the effect of each
  operation on the driver structure. An operation that is called outside its precondition
  fails, and changes nothing. Callbacks and bus conditions are not part of this model.
\<close>

text \<open>
  Modelled from the spec: \<open>init\<close>, the one-time setup that takes a driver from
  \<open>Uninitialized\<close> to \<open>Stopped\<close>.
\<close>

definition i2c_init :: "I2CDriver \<Rightarrow> I2CDriver" where
  "i2c_init d = (if id_state d = Uninitialized then d\<lparr>id_state := Stopped\<rparr> else d)"

text \<open>
  Modelled from the spec: \<open>start\<close> requires the state \<open>Stopped\<close>, sets the
  configuration and goes to \<open>Ready\<close>.
\<close>

definition i2c_start :: "I2CConfig \<Rightarrow> I2CDriver \<Rightarrow> I2CDriver" where
  "i2c_start cfg d =
     (if id_state d = Stopped then d\<lparr>id_state := Ready, id_config := Some cfg\<rparr> else d)"

text \<open>
  Modelled from the spec: \<open>stop\<close> requires a state other than \<open>Uninitialized\<close>,
  aborts the transaction in flight, clears the configuration and goes to \<open>Stopped\<close>.
\<close>

definition i2c_stop :: "I2CDriver \<Rightarrow> I2CDriver" where
  "i2c_stop d =
     (if id_state d = Uninitialized then d
      else d\<lparr>id_state := Stopped, id_config := None, id_slave_config := None\<rparr>)"

text \<open>
  Modelled from the spec: a descriptor is bound only when the capacity of each buffer is
  at least its requested count.
\<close>

definition buffers_fit :: "I2CSlaveConfig \<Rightarrow> bool" where
  "buffers_fit c = (rxbytes c \<le> rxdepth c \<and> txbytes c \<le> txdepth c)"

text \<open>
  Modelled from the spec: \<open>master_transmit\<close> requires the state \<open>Ready\<close>, binds the
  descriptor with the transmit cursor at 0, goes to \<open>ActiveTransmit\<close> and returns; the
  transfer ends later, in an interrupt.
\<close>

definition i2c_master_transmit :: "I2CSlaveConfig \<Rightarrow> I2CDriver \<Rightarrow> I2CDriver" where
  "i2c_master_transmit c d =
     (if id_state d = Ready \<and> buffers_fit c
      then d\<lparr>id_state := ActiveTransmit, id_slave_config := Some (c\<lparr>txbufhead := 0\<rparr>)\<rparr>
      else d)"

text \<open>
  Modelled from the spec: \<open>master_receive\<close> requires the state \<open>Ready\<close>, binds the
  descriptor with the receive cursor at 0, goes to \<open>ActiveReceive\<close> and returns.
\<close>

definition i2c_master_receive :: "I2CSlaveConfig \<Rightarrow> I2CDriver \<Rightarrow> I2CDriver" where
  "i2c_master_receive c d =
     (if id_state d = Ready \<and> buffers_fit c
      then d\<lparr>id_state := ActiveReceive, id_slave_config := Some (c\<lparr>rxbufhead := 0\<rparr>)\<rparr>
      else d)"

text \<open>
  Modelled from the spec: the completion path. When the transmit phase has completed and
  the restart flag is set, the driver goes to \<open>ActiveReceive\<close> in place, with the
  descriptor still bound, the cursor of the completed phase at the requested count and
  the cursor of the next one at 0. Any other completion unbinds the descriptor and goes to
  \<open>Ready\<close>.
\<close>

definition phase_completed :: "bool \<Rightarrow> I2CDriver \<Rightarrow> I2CDriver" where
  "phase_completed chain d =
     (case id_slave_config d of
        None \<Rightarrow> d
      | Some c \<Rightarrow>
          if id_state d = ActiveTransmit \<and> chain
          then d\<lparr>id_state := ActiveReceive,
                 id_slave_config := Some (c\<lparr>txbufhead := txbytes c, rxbufhead := 0\<rparr>)\<rparr>
          else if id_state d = ActiveTransmit \<or> id_state d = ActiveReceive
          then d\<lparr>id_state := Ready, id_slave_config := None\<rparr>
          else d)"

text \<open>
  Modelled from the spec: the errors of the taxonomy that the hardware reports during a
  transfer.
\<close>

datatype i2c_error =
  AddressNack | DataNack | ArbitrationLost | BusError | Overrun | Underrun

text \<open>
  Modelled from the spec: a bus error, an overrun, an underrun and a repeated loss of
  arbitration are unrecoverable.
\<close>

definition unrecoverable :: "i2c_error \<Rightarrow> bool \<Rightarrow> bool" where
  "unrecoverable e repeated =
     (e = BusError \<or> e = Overrun \<or> e = Underrun \<or> (e = ArbitrationLost \<and> repeated))"

text \<open>
  Modelled from the spec: the error path. An unrecoverable error takes the driver to
  \<open>Locked\<close>; after a missing acknowledge or a first loss of arbitration the state
  returns to \<open>Ready\<close>. The transaction is over either way, and the descriptor unbound.
\<close>

definition transfer_failed :: "i2c_error \<Rightarrow> bool \<Rightarrow> I2CDriver \<Rightarrow> I2CDriver" where
  "transfer_failed e repeated d =
     (case id_slave_config d of
        None \<Rightarrow> d
      | Some c \<Rightarrow>
          if id_state d = ActiveTransmit \<or> id_state d = ActiveReceive
          then d\<lparr>id_state := (if unrecoverable e repeated then Locked else Ready),
                 id_slave_config := None\<rparr>
          else d)"

text \<open>
  Modelled from the spec: what the hardware reports while a transfer is active, to the
  interrupt handler or to the polling loop of a non-interrupt operation: the phase has
  completed, or it has failed with an error, for the first time or repeatedly.
\<close>

datatype i2c_interrupt = transfer_complete | transfer_error i2c_error bool

text \<open>
  Modelled from the spec: the interrupt handler of an interrupt-driven transfer. At the end
  of a phase the restart flag of the bound descriptor decides whether a receive phase is
  chained.
\<close>

definition i2c_serve_interrupt :: "i2c_interrupt \<Rightarrow> I2CDriver \<Rightarrow> I2CDriver" where
  "i2c_serve_interrupt irq d =
     (case irq of
        transfer_complete \<Rightarrow>
          phase_completed (case id_slave_config d of None \<Rightarrow> False | Some c \<Rightarrow> restart c) d
      | transfer_error e repeated \<Rightarrow> transfer_failed e repeated d)"

text \<open>
  Modelled from the spec: \<open>master_transmit_ni\<close>, the non-interrupt equivalent of
  \<open>master_transmit\<close>, runs the whole transfer inline: it starts it as
  \<open>master_transmit\<close> does and polls the hardware until it reports the end of the phase
  (\<open>hw\<close>). Its restart argument overrides the flag of the descriptor for this call.
\<close>

definition i2c_master_transmit_NI ::
  "I2CSlaveConfig \<Rightarrow> bool \<Rightarrow> i2c_interrupt \<Rightarrow> I2CDriver \<Rightarrow> I2CDriver" where
  "i2c_master_transmit_NI c rst hw d =
     (if id_state d = Ready \<and> buffers_fit c
      then (case hw of
              transfer_complete \<Rightarrow> phase_completed rst (i2c_master_transmit c d)
            | transfer_error e repeated \<Rightarrow>
                transfer_failed e repeated (i2c_master_transmit c d))
      else d)"

text \<open>
  Modelled from the spec: \<open>master_receive_ni\<close>, the non-interrupt equivalent of
  \<open>master_receive\<close>.
\<close>

definition i2c_master_receive_NI ::
  "I2CSlaveConfig \<Rightarrow> i2c_interrupt \<Rightarrow> I2CDriver \<Rightarrow> I2CDriver" where
  "i2c_master_receive_NI c hw d =
     (if id_state d = Ready \<and> buffers_fit c
      then i2c_serve_interrupt hw (i2c_master_receive c d)
      else d)"

text \<open>
  The operations that can be applied to a driver, calls and interrupts alike, and the
  state of a driver after a history of them.
\<close>

datatype i2c_operation =
    Init
  | Start I2CConfig
  | Stop
  | Master_transmit I2CSlaveConfig
  | Master_receive I2CSlaveConfig
  | Master_transmit_NI I2CSlaveConfig bool i2c_interrupt
  | Master_receive_NI I2CSlaveConfig i2c_interrupt
  | Interrupt i2c_interrupt

fun i2c_apply :: "i2c_operation \<Rightarrow> I2CDriver \<Rightarrow> I2CDriver" where
  "i2c_apply Init d = i2c_init d"
| "i2c_apply (Start cfg) d = i2c_start cfg d"
| "i2c_apply Stop d = i2c_stop d"
| "i2c_apply (Master_transmit c) d = i2c_master_transmit c d"
| "i2c_apply (Master_receive c) d = i2c_master_receive c d"
| "i2c_apply (Master_transmit_NI c rst hw) d = i2c_master_transmit_NI c rst hw d"
| "i2c_apply (Master_receive_NI c hw) d = i2c_master_receive_NI c hw d"
| "i2c_apply (Interrupt irq) d = i2c_serve_interrupt irq d"

fun i2c_run :: "i2c_operation list \<Rightarrow> I2CDriver \<Rightarrow> I2CDriver" where
  "i2c_run [] d = d"
| "i2c_run (op # ops) d = i2c_run ops (i2c_apply op d)"

text \<open>The two sides of the invariant of the driver.\<close>

definition transfer_bound :: "I2CDriver \<Rightarrow> bool" where
  "transfer_bound d = (id_slave_config d \<noteq> None)"

definition transfer_active :: "I2CDriver \<Rightarrow> bool" where
  "transfer_active d = (id_state d = ActiveTransmit \<or> id_state d = ActiveReceive)"

text \<open>A configuration for a started bus: plain I2C at 100 kHz.\<close>

definition i2c_config_100k :: I2CConfig where
  "i2c_config_100k =
     \<lparr>opMode = opmodeI2C, ClockSpeed = 100000, FastModeDutyCycle = stdDutyCycle,
      OwnAddress7 = 0x10, OwnAddress10 = 0\<rparr>"

section \<open>Properties of the clock tree\<close>

lemma intmax_t_id: "- (2 ^ 63) \<le> k \<Longrightarrow> k < 2 ^ 63 \<Longrightarrow> intmax_t k = k"
  by (simp add: intmax_t_def)

lemma sdiv_abs_le: "\<bar>a sdiv b\<bar> \<le> \<bar>a\<bar>" for a b :: int
proof -
  have "0 \<le> \<bar>a\<bar> div \<bar>b\<bar>"
    by (simp add: div_int_pos_iff)
  then have "\<bar>a sdiv b\<bar> = \<bar>sgn a\<bar> * \<bar>sgn b\<bar> * (\<bar>a\<bar> div \<bar>b\<bar>)"
    by (simp add: signed_divide_int_def abs_mult)
  also have "\<dots> \<le> \<bar>a\<bar> div \<bar>b\<bar>"
    by (cases "a = 0"; cases "b = 0") (simp_all add: abs_sgn_eq)
  also have "\<dots> \<le> \<bar>a\<bar>"
  proof (cases "b = 0")
    case True
    then show ?thesis by simp
  next
    case False
    then have "\<bar>a\<bar> div \<bar>b\<bar> \<le> \<bar>a\<bar> div 1"
      by (intro zdiv_mono2) simp_all
    then show ?thesis by simp
  qed
  finally show ?thesis .
qed

lemma cpp_div_exact:
  assumes "b \<noteq> 0" and "\<bar>a\<bar> < 2 ^ 63"
  shows "cpp_div a b = Some (a sdiv b)"
proof -
  from sdiv_abs_le [of a b] assms(2) have "\<bar>a sdiv b\<bar> < 2 ^ 63" by linarith
  then have "intmax_t (a sdiv b) = a sdiv b" by (intro intmax_t_id) linarith+
  with assms(1) show ?thesis by (simp add: cpp_div_def)
qed

lemma cpp_identifier_SYSPLLCLKIN:
  "cpp_identifier (LPC11xx_SYSPLLCLKIN s) = pll_input_clock s"
  by (simp add: cpp_identifier_def LPC11xx_SYSPLLCLKIN_def pll_input_clock_def)

lemma pll_input_clock_bound:
  assumes "\<bar>SYSOSCCLK s\<bar> < 2 ^ 58"
  shows "\<bar>pll_input_clock s\<bar> < 2 ^ 58"
  using assms by (simp add: pll_input_clock_def IRCOSCCLK_def)

text \<open>
  With a multiplier that passes its check and an oscillator below \<open>2 ^ 58\<close> Hz the
  product does not wrap around.
\<close>

lemma cco_frequency_bound:
  assumes "\<bar>SYSOSCCLK s\<bar> < 2 ^ 58"
    and "1 \<le> LPC11xx_SYSPLL_MUL s" and "LPC11xx_SYSPLL_MUL s \<le> 32"
  shows "\<bar>cco_frequency s\<bar> < 2 ^ 63"
proof -
  from assms(1) have "\<bar>pll_input_clock s\<bar> < 2 ^ 58" by (rule pll_input_clock_bound)
  moreover from assms(2,3) have "\<bar>LPC11xx_SYSPLL_MUL s\<bar> \<le> 32" by simp
  ultimately have "\<bar>pll_input_clock s\<bar> * \<bar>LPC11xx_SYSPLL_MUL s\<bar> < 2 ^ 58 * 32"
    using assms(2) by (intro mult_less_le_imp_less) simp_all
  then show ?thesis by (simp add: cco_frequency_def abs_mult)
qed

lemma LPC11xx_SYSPLLCCO_exact:
  assumes "\<bar>SYSOSCCLK s\<bar> < 2 ^ 58"
    and "1 \<le> LPC11xx_SYSPLL_MUL s" and "LPC11xx_SYSPLL_MUL s \<le> 32"
  shows "LPC11xx_SYSPLLCCO s = cco_frequency s"
proof -
  from cco_frequency_bound [OF assms] have "intmax_t (cco_frequency s) = cco_frequency s"
    by (intro intmax_t_id) linarith+
  then show ?thesis
    by (simp add: LPC11xx_SYSPLLCCO_def cpp_mul_def cpp_identifier_SYSPLLCLKIN
        cco_frequency_def)
qed

lemma main_clock_bound:
  assumes "\<bar>SYSOSCCLK s\<bar> < 2 ^ 58"
    and "1 \<le> LPC11xx_SYSPLL_MUL s" and "LPC11xx_SYSPLL_MUL s \<le> 32"
  shows "\<bar>main_clock s\<bar> < 2 ^ 63"
proof -
  from pll_input_clock_bound [OF assms(1)] have "\<bar>pll_input_clock s\<bar> < 2 ^ 63" by simp
  moreover from cco_frequency_bound [OF assms] sdiv_abs_le [of "cco_frequency s"]
  have "\<bar>cco_frequency s sdiv LPC11xx_SYSPLL_DIV s\<bar> < 2 ^ 63" by (rule le_less_trans [rotated])
  ultimately show ?thesis
    by (simp add: main_clock_def IRCOSCCLK_def WDGOSCCLK_def)
qed

lemma LPC11xx_MAINCLK_exact:
  assumes "\<bar>SYSOSCCLK s\<bar> < 2 ^ 58"
    and "1 \<le> LPC11xx_SYSPLL_MUL s" and "LPC11xx_SYSPLL_MUL s \<le> 32"
    and "LPC11xx_SYSPLL_DIV s \<in> {2, 4, 8, 16}"
  shows "LPC11xx_MAINCLK s = Some (main_clock s)"
proof -
  from assms(4) have "LPC11xx_SYSPLL_DIV s \<noteq> 0" by auto
  with cco_frequency_bound [OF assms(1-3)]
  have "cpp_div (cco_frequency s) (LPC11xx_SYSPLL_DIV s) =
      Some (cco_frequency s sdiv LPC11xx_SYSPLL_DIV s)"
    by (intro cpp_div_exact)
  then show ?thesis
    by (simp add: LPC11xx_MAINCLK_def main_clock_def LPC11xx_SYSPLLCLKOUT_def
        LPC11xx_SYSPLLCCO_exact [OF assms(1-3)] cpp_identifier_SYSPLLCLKIN)
qed

lemma LPC11xx_SYSCLK_exact:
  assumes "\<bar>SYSOSCCLK s\<bar> < 2 ^ 58"
    and "1 \<le> LPC11xx_SYSPLL_MUL s" and "LPC11xx_SYSPLL_MUL s \<le> 32"
    and "LPC11xx_SYSPLL_DIV s \<in> {2, 4, 8, 16}"
  shows "LPC11xx_SYSCLK s =
    (if LPC11xx_SYSCLK_DIV s = 0 then None else Some (ahb_clock s))"
proof (cases "LPC11xx_SYSCLK_DIV s = 0")
  case True
  then show ?thesis
    by (simp add: LPC11xx_SYSCLK_def LPC11xx_MAINCLK_exact [OF assms] cpp_div_def)
next
  case False
  with main_clock_bound [OF assms(1-3)]
  have "cpp_div (main_clock s) (LPC11xx_SYSCLK_DIV s) =
      Some (main_clock s sdiv LPC11xx_SYSCLK_DIV s)"
    by (intro cpp_div_exact)
  with False show ?thesis
    by (simp add: LPC11xx_SYSCLK_def LPC11xx_MAINCLK_exact [OF assms] ahb_clock_def)
qed


text \<open>
  C8, as stated, fails in both directions. With a main clock source of 4 the four
  conditions hold and none of the four checks behind them fires, and the header still
  refuses the settings, for the source. With an oscillator of \<open>2 ^ 60 + 12000000\<close> Hz
  the header accepts the settings, because the product wraps around to 192 MHz, and the CCO
  frequency is not in its range.
\<close>

theorem clock_conditions_counterexample:
  "clock_conditions lpc11xx_main_source_4 \<and>
   hal_lld_h lpc11xx_main_source_4 = [invalid_MAINCLK_SOURCE] \<and>
   \<not> accepted lpc11xx_main_source_4 \<and>
   accepted lpc11xx_huge_oscillator \<and>
   cco_frequency lpc11xx_huge_oscillator = 18446744073901551616 \<and>
   \<not> clock_conditions lpc11xx_huge_oscillator"
proof -
  have c: "clock_conditions lpc11xx_main_source_4"
    by (simp add: clock_conditions_def lpc11xx_main_source_4_def lpc11xx_defaults_def
        cco_frequency_def pll_input_clock_def ahb_clock_def main_clock_def
        SYSPLLCLKSEL_SYSOSC_def SYSMAINCLKSEL_PLLOUT_def SYSMAINCLKSEL_IRCOCS_def
        SYSMAINCLKSEL_PLLIN_def SYSMAINCLKSEL_WDGOSC_def)
  have h: "hal_lld_h lpc11xx_main_source_4 = [invalid_MAINCLK_SOURCE]"
    by (simp add: hal_lld_h_def lpc11xx_main_source_4_def lpc11xx_defaults_def
        LPC11xx_SYSPLLCLKIN_def LPC11xx_SYSPLLCCO_def LPC11xx_MAINCLK_defined_def
        LPC11xx_SYSCLK_def LPC11xx_MAINCLK_def cpp_mul_def cpp_div_def cpp_identifier_def
        intmax_t_def signed_divide_int_def
        SYSPLLCLKSEL_SYSOSC_def SYSMAINCLKSEL_PLLOUT_def SYSMAINCLKSEL_IRCOCS_def
        SYSMAINCLKSEL_PLLIN_def SYSMAINCLKSEL_WDGOSC_def)
  have a: "accepted lpc11xx_huge_oscillator"
    by (simp add: accepted_def hal_lld_h_def lpc11xx_huge_oscillator_def lpc11xx_defaults_def
        LPC11xx_SYSPLLCLKIN_def LPC11xx_SYSPLLCCO_def LPC11xx_MAINCLK_defined_def
        LPC11xx_SYSCLK_def LPC11xx_MAINCLK_def LPC11xx_SYSPLLCLKOUT_def
        cpp_mul_def cpp_div_def cpp_identifier_def intmax_t_def signed_divide_int_def
        SYSPLLCLKSEL_SYSOSC_def SYSMAINCLKSEL_PLLOUT_def SYSMAINCLKSEL_IRCOCS_def
        SYSMAINCLKSEL_PLLIN_def SYSMAINCLKSEL_WDGOSC_def)
  have f: "cco_frequency lpc11xx_huge_oscillator = 18446744073901551616"
    by (simp add: cco_frequency_def pll_input_clock_def lpc11xx_huge_oscillator_def
        lpc11xx_defaults_def SYSPLLCLKSEL_SYSOSC_def)
  from f have n: "\<not> clock_conditions lpc11xx_huge_oscillator"
    by (simp add: clock_conditions_def)
  from c h a f n show ?thesis by (simp add: accepted_def)
qed

text \<open>
  C8, amended. For an oscillator below \<open>2 ^ 58\<close> Hz, where no product of the header
  wraps around: the header accepts the settings (it reports no error) if and only if the
  PLL clock source and the main clock source are among the selections that the header
  defines, the AHB divider is not 0, and the four conditions hold: the PLL multiplier
  is in 1..32, the PLL divider is one of 2, 4, 8 and 16, the CCO frequency (PLL input
  clock times multiplier) lies in 156 MHz..320 MHz and the AHB clock (main clock divided
  by the AHB divider) is at most 50 MHz. When the settings are accepted and the PLL output
  is the main clock, the AHB clock that the header derives is the PLL input clock times
  the multiplier, divided by the PLL divider and then by the AHB divider, in exact integer
  arithmetic.
\<close>

theorem clock_configuration_validated:
  assumes osc: "\<bar>SYSOSCCLK s\<bar> < 2 ^ 58"
  shows "(accepted s \<longleftrightarrow>
            (LPC11xx_PLLCLK_SOURCE s = SYSPLLCLKSEL_SYSOSC \<or>
             LPC11xx_PLLCLK_SOURCE s = SYSPLLCLKSEL_IRCOCS) \<and>
            (LPC11xx_MAINCLK_SOURCE s = SYSMAINCLKSEL_IRCOCS \<or>
             LPC11xx_MAINCLK_SOURCE s = SYSMAINCLKSEL_PLLIN \<or>
             LPC11xx_MAINCLK_SOURCE s = SYSMAINCLKSEL_WDGOSC \<or>
             LPC11xx_MAINCLK_SOURCE s = SYSMAINCLKSEL_PLLOUT) \<and>
            LPC11xx_SYSCLK_DIV s \<noteq> 0 \<and>
            clock_conditions s) \<and>
         (accepted s \<and> LPC11xx_MAINCLK_SOURCE s = SYSMAINCLKSEL_PLLOUT \<longrightarrow>
            LPC11xx_SYSCLK s =
              Some (pll_input_clock s * LPC11xx_SYSPLL_MUL s sdiv LPC11xx_SYSPLL_DIV s
                      sdiv LPC11xx_SYSCLK_DIV s))"
proof -
  have checks: "accepted s \<longleftrightarrow>
      LPC11xx_SYSPLLCLKIN s \<noteq> None \<and>
      1 \<le> LPC11xx_SYSPLL_MUL s \<and> LPC11xx_SYSPLL_MUL s \<le> 32 \<and>
      LPC11xx_SYSPLL_DIV s \<in> {2, 4, 8, 16} \<and>
      156000000 \<le> LPC11xx_SYSPLLCCO s \<and> LPC11xx_SYSPLLCCO s \<le> 320000000 \<and>
      LPC11xx_MAINCLK_defined s \<and>
      (\<exists>sysclk. LPC11xx_SYSCLK s = Some sysclk \<and> sysclk \<le> 50000000)"
    by (auto simp: accepted_def hal_lld_h_def split: option.splits if_splits)
  have source: "LPC11xx_SYSPLLCLKIN s \<noteq> None \<longleftrightarrow>
      LPC11xx_PLLCLK_SOURCE s = SYSPLLCLKSEL_SYSOSC \<or>
      LPC11xx_PLLCLK_SOURCE s = SYSPLLCLKSEL_IRCOCS"
    by (simp add: LPC11xx_SYSPLLCLKIN_def)
  have first: "accepted s \<longleftrightarrow>
      (LPC11xx_PLLCLK_SOURCE s = SYSPLLCLKSEL_SYSOSC \<or>
       LPC11xx_PLLCLK_SOURCE s = SYSPLLCLKSEL_IRCOCS) \<and>
      (LPC11xx_MAINCLK_SOURCE s = SYSMAINCLKSEL_IRCOCS \<or>
       LPC11xx_MAINCLK_SOURCE s = SYSMAINCLKSEL_PLLIN \<or>
       LPC11xx_MAINCLK_SOURCE s = SYSMAINCLKSEL_WDGOSC \<or>
       LPC11xx_MAINCLK_SOURCE s = SYSMAINCLKSEL_PLLOUT) \<and>
      LPC11xx_SYSCLK_DIV s \<noteq> 0 \<and>
      clock_conditions s"
  proof (cases "1 \<le> LPC11xx_SYSPLL_MUL s \<and> LPC11xx_SYSPLL_MUL s \<le> 32 \<and>
      LPC11xx_SYSPLL_DIV s \<in> {2, 4, 8, 16}")
    case True
    then have mul: "1 \<le> LPC11xx_SYSPLL_MUL s" "LPC11xx_SYSPLL_MUL s \<le> 32"
      and dv: "LPC11xx_SYSPLL_DIV s \<in> {2, 4, 8, 16}"
      by simp_all
    note cco = LPC11xx_SYSPLLCCO_exact [OF osc mul]
    note sysclk = LPC11xx_SYSCLK_exact [OF osc mul dv]
    from True show ?thesis
      unfolding checks source cco sysclk LPC11xx_MAINCLK_defined_def clock_conditions_def
      by auto
  next
    case False
    then show ?thesis
      unfolding checks clock_conditions_def by auto
  qed
  have second: "LPC11xx_SYSCLK s =
      Some (pll_input_clock s * LPC11xx_SYSPLL_MUL s sdiv LPC11xx_SYSPLL_DIV s
              sdiv LPC11xx_SYSCLK_DIV s)"
    if ok: "accepted s" and pll: "LPC11xx_MAINCLK_SOURCE s = SYSMAINCLKSEL_PLLOUT"
  proof -
    from ok first have mul: "1 \<le> LPC11xx_SYSPLL_MUL s" "LPC11xx_SYSPLL_MUL s \<le> 32"
      and dv: "LPC11xx_SYSPLL_DIV s \<in> {2, 4, 8, 16}"
      and nz: "LPC11xx_SYSCLK_DIV s \<noteq> 0"
      by (simp_all add: clock_conditions_def)
    from pll have "main_clock s = cco_frequency s sdiv LPC11xx_SYSPLL_DIV s"
      by (simp add: main_clock_def SYSMAINCLKSEL_PLLOUT_def SYSMAINCLKSEL_IRCOCS_def
          SYSMAINCLKSEL_PLLIN_def SYSMAINCLKSEL_WDGOSC_def)
    with nz show ?thesis
      by (simp add: LPC11xx_SYSCLK_exact [OF osc mul dv] ahb_clock_def cco_frequency_def)
  qed
  from first second show ?thesis by blast
qed

text \<open>
  The defaults of the header, with a 12 MHz crystal: 12 MHz times 16 is a CCO of 192 MHz,
  divided by 4 and by 1 an AHB clock of 48 MHz.
\<close>

theorem clock_configuration_validated_witness:
  "\<bar>SYSOSCCLK lpc11xx_defaults\<bar> < 2 ^ 58 \<and>
   clock_conditions lpc11xx_defaults \<and> accepted lpc11xx_defaults \<and>
   LPC11xx_MAINCLK_SOURCE lpc11xx_defaults = SYSMAINCLKSEL_PLLOUT \<and>
   LPC11xx_SYSCLK lpc11xx_defaults = Some 48000000"
proof -
  have o: "\<bar>SYSOSCCLK lpc11xx_defaults\<bar> < 2 ^ 58"
    by (simp add: lpc11xx_defaults_def)
  have c: "clock_conditions lpc11xx_defaults"
    by (simp add: clock_conditions_def lpc11xx_defaults_def cco_frequency_def
        pll_input_clock_def ahb_clock_def main_clock_def signed_divide_int_def
        SYSPLLCLKSEL_SYSOSC_def SYSMAINCLKSEL_PLLOUT_def SYSMAINCLKSEL_IRCOCS_def
        SYSMAINCLKSEL_PLLIN_def SYSMAINCLKSEL_WDGOSC_def)
  have m: "LPC11xx_MAINCLK_SOURCE lpc11xx_defaults = SYSMAINCLKSEL_PLLOUT"
    and p: "LPC11xx_PLLCLK_SOURCE lpc11xx_defaults = SYSPLLCLKSEL_SYSOSC"
    and d: "LPC11xx_SYSCLK_DIV lpc11xx_defaults \<noteq> 0"
    by (simp_all add: lpc11xx_defaults_def)
  from clock_configuration_validated [OF o] c m p d
  have a: "accepted lpc11xx_defaults"
    and "LPC11xx_SYSCLK lpc11xx_defaults =
      Some (pll_input_clock lpc11xx_defaults * LPC11xx_SYSPLL_MUL lpc11xx_defaults
              sdiv LPC11xx_SYSPLL_DIV lpc11xx_defaults
              sdiv LPC11xx_SYSCLK_DIV lpc11xx_defaults)"
    by blast+
  then have "LPC11xx_SYSCLK lpc11xx_defaults = Some 48000000"
    by (simp add: lpc11xx_defaults_def pll_input_clock_def signed_divide_int_def
        SYSPLLCLKSEL_SYSOSC_def)
  with o c a m show ?thesis by simp
qed

section \<open>The invariant of the driver\<close>

lemma phase_completed_invariant:
  assumes "transfer_bound d \<longleftrightarrow> transfer_active d"
  shows "transfer_bound (phase_completed chain d) \<longleftrightarrow>
         transfer_active (phase_completed chain d)"
  using assms
  by (auto simp: phase_completed_def transfer_bound_def transfer_active_def
      split: option.splits)

lemma transfer_failed_invariant:
  assumes "transfer_bound d \<longleftrightarrow> transfer_active d"
  shows "transfer_bound (transfer_failed e repeated d) \<longleftrightarrow>
         transfer_active (transfer_failed e repeated d)"
  using assms
  by (auto simp: transfer_failed_def transfer_bound_def transfer_active_def
      split: option.splits)

lemma i2c_master_transmit_invariant:
  assumes "transfer_bound d \<longleftrightarrow> transfer_active d"
  shows "transfer_bound (i2c_master_transmit c d) \<longleftrightarrow>
         transfer_active (i2c_master_transmit c d)"
  using assms
  by (auto simp: i2c_master_transmit_def transfer_bound_def transfer_active_def)

lemma i2c_master_receive_invariant:
  assumes "transfer_bound d \<longleftrightarrow> transfer_active d"
  shows "transfer_bound (i2c_master_receive c d) \<longleftrightarrow>
         transfer_active (i2c_master_receive c d)"
  using assms
  by (auto simp: i2c_master_receive_def transfer_bound_def transfer_active_def)

lemma i2c_serve_interrupt_invariant:
  assumes "transfer_bound d \<longleftrightarrow> transfer_active d"
  shows "transfer_bound (i2c_serve_interrupt irq d) \<longleftrightarrow>
         transfer_active (i2c_serve_interrupt irq d)"
  using assms phase_completed_invariant transfer_failed_invariant
  by (cases irq) (simp_all add: i2c_serve_interrupt_def)

lemma i2c_apply_invariant:
  assumes inv: "transfer_bound d \<longleftrightarrow> transfer_active d"
  shows "transfer_bound (i2c_apply op d) \<longleftrightarrow> transfer_active (i2c_apply op d)"
proof (cases op)
  case Init
  with inv show ?thesis
    by (auto simp: i2c_init_def transfer_bound_def transfer_active_def)
next
  case (Start cfg)
  with inv show ?thesis
    by (auto simp: i2c_start_def transfer_bound_def transfer_active_def)
next
  case Stop
  with inv show ?thesis
    by (auto simp: i2c_stop_def transfer_bound_def transfer_active_def)
next
  case (Master_transmit c)
  with inv show ?thesis by (simp add: i2c_master_transmit_invariant)
next
  case (Master_receive c)
  with inv show ?thesis by (simp add: i2c_master_receive_invariant)
next
  case (Master_transmit_NI c rst hw)
  have started: "transfer_bound (i2c_master_transmit c d) \<longleftrightarrow>
      transfer_active (i2c_master_transmit c d)"
    using inv by (rule i2c_master_transmit_invariant)
  show ?thesis
  proof (cases hw)
    case transfer_complete
    with Master_transmit_NI inv phase_completed_invariant [OF started] show ?thesis
      by (simp add: i2c_master_transmit_NI_def)
  next
    case (transfer_error e repeated)
    with Master_transmit_NI inv transfer_failed_invariant [OF started] show ?thesis
      by (simp add: i2c_master_transmit_NI_def)
  qed
next
  case (Master_receive_NI c hw)
  have started: "transfer_bound (i2c_master_receive c d) \<longleftrightarrow>
      transfer_active (i2c_master_receive c d)"
    using inv by (rule i2c_master_receive_invariant)
  with Master_receive_NI inv i2c_serve_interrupt_invariant [OF started] show ?thesis
    by (simp add: i2c_master_receive_NI_def)
next
  case (Interrupt irq)
  with inv show ?thesis by (simp add: i2c_serve_interrupt_invariant)
qed

lemma I2CDriver_static_invariant:
  "transfer_bound I2CDriver_static \<longleftrightarrow> transfer_active I2CDriver_static"
  by (simp add: transfer_bound_def transfer_active_def I2CDriver_static_def)

text \<open>
  C2. In every state that a driver reaches from its static initial state, by any history of
  operations (\<open>init\<close>, \<open>start\<close>, \<open>stop\<close>, \<open>master_transmit\<close>, \<open>master_receive\<close>, the
  non-interrupt variants, and the completion and error paths of a transfer), a transfer
  descriptor is bound if and only if the state is \<open>ActiveTransmit\<close> or \<open>ActiveReceive\<close>;
  and every operation preserves this equivalence.
\<close>

theorem descriptor_bound_iff_active:
  "(transfer_bound (i2c_run ops I2CDriver_static) \<longleftrightarrow>
      transfer_active (i2c_run ops I2CDriver_static)) \<and>
   ((transfer_bound d \<longleftrightarrow> transfer_active d) \<longrightarrow>
      (transfer_bound (i2c_apply op d) \<longleftrightarrow> transfer_active (i2c_apply op d)))"
proof (intro conjI impI)
  have "transfer_bound (i2c_run ops d0) \<longleftrightarrow> transfer_active (i2c_run ops d0)"
    if "transfer_bound d0 \<longleftrightarrow> transfer_active d0" for d0
    using that
  proof (induction ops arbitrary: d0)
    case Nil
    then show ?case by simp
  next
    case (Cons op' ops)
    from Cons.prems
    have "transfer_bound (i2c_apply op' d0) \<longleftrightarrow> transfer_active (i2c_apply op' d0)"
      by (rule i2c_apply_invariant)
    then show ?case by (simp add: Cons.IH)
  qed
  with I2CDriver_static_invariant
  show "transfer_bound (i2c_run ops I2CDriver_static) \<longleftrightarrow>
      transfer_active (i2c_run ops I2CDriver_static)"
    by blast
next
  assume "transfer_bound d \<longleftrightarrow> transfer_active d"
  then show "transfer_bound (i2c_apply op d) \<longleftrightarrow> transfer_active (i2c_apply op d)"
    by (rule i2c_apply_invariant)
qed

text \<open>
  A started driver is \<open>Ready\<close> with no descriptor; \<open>master_transmit\<close> then binds the
  descriptor and the state is \<open>ActiveTransmit\<close>.
\<close>

theorem descriptor_bound_iff_active_witness:
  "\<not> transfer_bound (i2c_run [Init, Start i2c_config_100k] I2CDriver_static) \<and>
   \<not> transfer_active (i2c_run [Init, Start i2c_config_100k] I2CDriver_static) \<and>
   transfer_bound (i2c_apply (Master_transmit slave_0x50)
     (i2c_run [Init, Start i2c_config_100k] I2CDriver_static)) \<and>
   transfer_active (i2c_apply (Master_transmit slave_0x50)
     (i2c_run [Init, Start i2c_config_100k] I2CDriver_static))"
proof -
  let ?d = "i2c_run [Init, Start i2c_config_100k] I2CDriver_static"
  have d: "?d = \<lparr>id_state = Ready, id_config = Some i2c_config_100k,
      id_slave_config = None, id_i2c = NULL\<rparr>"
    by (simp add: i2c_init_def i2c_start_def I2CDriver_static_def)
  have n: "\<not> transfer_bound ?d" "\<not> transfer_active ?d"
    by (simp_all only: d) (simp_all add: transfer_bound_def transfer_active_def)
  have f: "buffers_fit slave_0x50"
    by (simp add: buffers_fit_def slave_0x50_def)
  have b: "transfer_bound (i2c_apply (Master_transmit slave_0x50) ?d)"
    by (simp only: d) (simp add: i2c_master_transmit_def f transfer_bound_def)
  from n have "transfer_bound ?d \<longleftrightarrow> transfer_active ?d" by simp
  with descriptor_bound_iff_active [of "[]" ?d "Master_transmit slave_0x50"] b
  have "transfer_active (i2c_apply (Master_transmit slave_0x50) ?d)" by blast
  with n b show ?thesis by blast
qed

end
